theory Spec2Isabelle
  imports Main "HOL-Library.AList"
begin

section \<open>JavaScript values, objects and the object store\<close>

text \<open>
  What reading a property yields: \<open>undefined\<close> (also for a property the object does not
  have), \<open>null\<close>, or a proper value. Both \<open>undefined\<close> and \<open>null\<close> are falsy; the
  proper values stored by this program (tool objects, functions, schema objects) are truthy.
\<close>

datatype 'a js_slot = Undefined | Null | Value 'a

fun falsy :: "'a js_slot \<Rightarrow> bool" where
  "falsy Undefined = True"
| "falsy Null = True"
| "falsy (Value v) = False"

text \<open>
  The type of the field \<open>toolConfig\<close>, \<open>Tool | ((ctx) => Tool)\<close>: the tag is what
  \<open>typeof this.toolConfig === "function"\<close> tests. The tool object itself is opaque (\<open>'t\<close>).
\<close>

datatype ('c, 't) tool_config = Static 't | Deferred "'c \<Rightarrow> 't"

text \<open>The fields of \<open>class ToolBuilder\<close>, with the initialisers of the class body.\<close>

record ('s, 'c, 't) ToolBuilder =
  toolConfig :: "('c, 't) tool_config js_slot"
  contextSchema :: "'s js_slot"

text \<open>The only function of the program that is ever stored in a property: the method \<open>build\<close>.\<close>

datatype js_function = ToolBuilder_build

text \<open>
  The objects the program allocates: instances of \<open>ToolBuilder\<close>, and the object literal
  \<open>{ build: ... }\<close> returned by \<open>tool\<close>, whose single own property is \<open>build\<close>.
  Objects live in a store and are referred to by address; an address is an index of the list.
\<close>

datatype ('s, 'c, 't) js_object =
    Builder "('s, 'c, 't) ToolBuilder"
  | Handle "js_function js_slot"

type_synonym addr = nat
type_synonym ('s, 'c, 't) heap = "('s, 'c, 't) js_object list"

definition is_builder :: "('s, 'c, 't) heap \<Rightarrow> addr \<Rightarrow> bool" where
  "is_builder h a = (a < length h \<and> (case h ! a of Builder b \<Rightarrow> True | Handle f \<Rightarrow> False))"

text \<open>
  Property reads \<open>obj.toolConfig\<close>, \<open>obj.contextSchema\<close>, \<open>obj.build\<close>. The object
  literal has neither \<open>toolConfig\<close> nor \<open>contextSchema\<close>, so both read \<open>undefined\<close> on it;
  a \<open>ToolBuilder\<close> instance finds \<open>build\<close> on its prototype.
\<close>

definition get_toolConfig :: "('s, 'c, 't) heap \<Rightarrow> addr \<Rightarrow> ('c, 't) tool_config js_slot" where
  "get_toolConfig h a =
     (if a < length h
      then (case h ! a of Builder b \<Rightarrow> toolConfig b | Handle f \<Rightarrow> Undefined)
      else Undefined)"

definition get_contextSchema :: "('s, 'c, 't) heap \<Rightarrow> addr \<Rightarrow> 's js_slot" where
  "get_contextSchema h a =
     (if a < length h
      then (case h ! a of Builder b \<Rightarrow> contextSchema b | Handle f \<Rightarrow> Undefined)
      else Undefined)"

definition get_build :: "('s, 'c, 't) heap \<Rightarrow> addr \<Rightarrow> js_function js_slot" where
  "get_build h a =
     (if a < length h
      then (case h ! a of Builder b \<Rightarrow> Value ToolBuilder_build | Handle f \<Rightarrow> f)
      else Undefined)"

text \<open>
  Property writes \<open>obj.toolConfig = v\<close> and \<open>obj.contextSchema = v\<close>. The program writes
  only to a \<open>ToolBuilder\<close> it has just allocated; on anything else the store is left as it is.
\<close>

definition set_toolConfig ::
  "('s, 'c, 't) heap \<Rightarrow> addr \<Rightarrow> ('c, 't) tool_config js_slot \<Rightarrow> ('s, 'c, 't) heap" where
  "set_toolConfig h a v =
     (if a < length h
      then (case h ! a of
              Builder b \<Rightarrow> h[a := Builder (b\<lparr>toolConfig := v\<rparr>)]
            | Handle f \<Rightarrow> h)
      else h)"

definition set_contextSchema ::
  "('s, 'c, 't) heap \<Rightarrow> addr \<Rightarrow> 's js_slot \<Rightarrow> ('s, 'c, 't) heap" where
  "set_contextSchema h a v =
     (if a < length h
      then (case h ! a of
              Builder b \<Rightarrow> h[a := Builder (b\<lparr>contextSchema := v\<rparr>)]
            | Handle f \<Rightarrow> h)
      else h)"

text \<open>\<open>new ToolBuilder()\<close>: a fresh object with \<open>toolConfig = null\<close> and
  \<open>contextSchema = undefined\<close>, at a new address.\<close>

definition new_ToolBuilder :: "('s, 'c, 't) heap \<Rightarrow> addr \<times> ('s, 'c, 't) heap" where
  "new_ToolBuilder h =
     (length h, h @ [Builder \<lparr>toolConfig = Null, contextSchema = Undefined\<rparr>])"

section \<open>The schema library\<close>

text \<open>
  What a call can throw: \<open>new Error(msg)\<close>, the library's validation error with its
  detail, and the \<open>TypeError\<close> of calling a property that is not a function.
\<close>

datatype 'e error = Error string | ZodError 'e | TypeError string

text \<open>
  The two operations of the schema library that the builder calls, \<open>schema.parse(value)\<close>
  and \<open>schema.extend(other)\<close>, are a parameter of the model: the library is not part of
  the repository. \<open>parse\<close> either fails with the library's failure detail or returns the
  parsed value. \<open>extend\<close> is called with the receiver's schema object and, as its argument,
  the schema object that \<open>withContext\<close> was given; it either throws or returns the
  extended schema.
\<close>

record ('s, 'c, 'e) schema_lib =
  schema_parse :: "'s \<Rightarrow> 'c \<Rightarrow> 'e + 'c"
  schema_extend :: "'s \<Rightarrow> 's \<Rightarrow> 'e error + 's"

section \<open>The methods of ToolBuilder\<close>

text \<open>
  \<open>withContext(schema)\<close>, with \<open>this\<close> the address of the receiver. When the receiver
  holds a schema, \<open>this.contextSchema.extend(schema)\<close> runs after the new builder has been
  allocated; if it throws, the call ends with that error, no builder is returned, and the
  object just allocated stays in the store with its initial fields.
\<close>

definition withContext ::
  "('s, 'c, 'e) schema_lib \<Rightarrow> ('s, 'c, 't) heap \<Rightarrow> addr \<Rightarrow> 's
     \<Rightarrow> ('e error + addr) \<times> ('s, 'c, 't) heap" where
  "withContext Z h this schema =
     (let (newBuilder, h1) = new_ToolBuilder h
      in (case get_contextSchema h1 this of
            Value cs \<Rightarrow>
              (case schema_extend Z cs schema of
                 Inl e \<Rightarrow> (Inl e, h1)
               | Inr extended \<Rightarrow>
                   (Inr newBuilder, set_contextSchema h1 newBuilder (Value extended)))
          | Undefined \<Rightarrow> (Inr newBuilder, set_contextSchema h1 newBuilder (Value schema))
          | Null \<Rightarrow> (Inr newBuilder, set_contextSchema h1 newBuilder (Value schema))))"

text \<open>
  \<open>tool(config)\<close>: a new builder receives the configuration, and the object returned is the
  literal \<open>{ build: this.build }\<close>, which refers to neither builder.
\<close>

definition tool ::
  "('s, 'c, 't) heap \<Rightarrow> addr \<Rightarrow> ('c, 't) tool_config \<Rightarrow> addr \<times> ('s, 'c, 't) heap" where
  "tool h this config =
     (let (newBuilder, h1) = new_ToolBuilder h;
          h2 = set_toolConfig h1 newBuilder (Value config)
      in (length h2, h2 @ [Handle (get_build h2 this)]))"

text \<open>
  \<open>build(ctx)\<close>, with \<open>this\<close> the address of whatever object the function is called on.
  The result of \<open>parse\<close> is dropped; the function source is applied to \<open>ctx\<close>. The method
  assigns nothing, so the store it returns is the store it was given.
\<close>

definition build ::
  "('s, 'c, 'e) schema_lib \<Rightarrow> ('s, 'c, 't) heap \<Rightarrow> addr \<Rightarrow> 'c \<Rightarrow> ('e error + 't) \<times> ('s, 'c, 't) heap" where
  "build Z h this ctx =
     (if falsy (get_toolConfig h this) then (Inl (Error ''Tool not configured''), h)
      else (case get_toolConfig h this of
              Value (Deferred f) \<Rightarrow>
                (case get_contextSchema h this of
                   Value cs \<Rightarrow>
                     (case schema_parse Z cs ctx of
                        Inl e \<Rightarrow> (Inl (ZodError e), h)
                      | Inr parsed \<Rightarrow> (Inr (f ctx), h))
                 | Undefined \<Rightarrow> (Inr (f ctx), h)
                 | Null \<Rightarrow> (Inr (f ctx), h))
            | Value (Static d) \<Rightarrow> (Inr d, h)
            | Undefined \<Rightarrow> (Inl (Error ''Tool not configured''), h)
            | Null \<Rightarrow> (Inl (Error ''Tool not configured''), h)))"

text \<open>
  The method call \<open>obj.build(ctx)\<close>: the property \<open>build\<close> is read from \<open>obj\<close> and the
  function found there runs with \<open>this = obj\<close>.
\<close>

definition call_build ::
  "('s, 'c, 'e) schema_lib \<Rightarrow> ('s, 'c, 't) heap \<Rightarrow> addr \<Rightarrow> 'c \<Rightarrow> ('e error + 't) \<times> ('s, 'c, 't) heap" where
  "call_build Z h obj ctx =
     (case get_build h obj of
        Value ToolBuilder_build \<Rightarrow> build Z h obj ctx
      | Undefined \<Rightarrow> (Inl (TypeError ''build is not a function''), h)
      | Null \<Rightarrow> (Inl (TypeError ''build is not a function''), h))"

section \<open>Chains of calls\<close>

text \<open>\<open>const toolBuilder = new ToolBuilder()\<close>, run once when the module is loaded.\<close>

definition toolBuilder :: addr where
  "toolBuilder = 0"

definition module_heap :: "('s, 'c, 't) heap" where
  "module_heap = snd (new_ToolBuilder [])"

text \<open>
  \<open>b.withContext(s1). ... .withContext(sn)\<close>: the first call that throws ends the
  chain with its error.
\<close>

fun withContexts ::
  "('s, 'c, 'e) schema_lib \<Rightarrow> ('s, 'c, 't) heap \<Rightarrow> addr \<Rightarrow> 's list
     \<Rightarrow> ('e error + addr) \<times> ('s, 'c, 't) heap" where
  "withContexts Z h b [] = (Inr b, h)"
| "withContexts Z h b (s # ss) =
     (case withContext Z h b s of
        (Inl e, h') \<Rightarrow> (Inl e, h')
      | (Inr b', h') \<Rightarrow> withContexts Z h' b' ss)"

text \<open>\<open>b.withContext(s1). ... .withContext(sn).tool(config).build(ctx)\<close>.\<close>

definition run_chain ::
  "('s, 'c, 'e) schema_lib \<Rightarrow> ('s, 'c, 't) heap \<Rightarrow> addr \<Rightarrow> 's list \<Rightarrow> ('c, 't) tool_config \<Rightarrow> 'c
     \<Rightarrow> ('e error + 't) \<times> ('s, 'c, 't) heap" where
  "run_chain Z h b ss config ctx =
     (case withContexts Z h b ss of
        (Inl e, h1) \<Rightarrow> (Inl e, h1)
      | (Inr b', h1) \<Rightarrow>
          (let (handle, h2) = tool h1 b' config
           in call_build Z h2 handle ctx))"

text \<open>
  Any sequence of method calls on objects of the store, each run whether or not the one
  before it threw. A call of \<open>withContext\<close> or \<open>tool\<close> on an object that is not a
  \<open>ToolBuilder\<close> finds no such method and throws before anything runs.
\<close>

datatype ('s, 'c, 't) call =
    WithContext addr 's
  | Tool addr "('c, 't) tool_config"
  | Build addr 'c

fun exec ::
  "('s, 'c, 'e) schema_lib \<Rightarrow> ('s, 'c, 't) heap \<Rightarrow> ('s, 'c, 't) call \<Rightarrow> ('s, 'c, 't) heap" where
  "exec Z h (WithContext a s) = (if is_builder h a then snd (withContext Z h a s) else h)"
| "exec Z h (Tool a config) = (if is_builder h a then snd (tool h a config) else h)"
| "exec Z h (Build a ctx) = snd (call_build Z h a ctx)"

definition exec_all ::
  "('s, 'c, 'e) schema_lib \<Rightarrow> ('s, 'c, 't) heap \<Rightarrow> ('s, 'c, 't) call list \<Rightarrow> ('s, 'c, 't) heap" where
  "exec_all Z h cs = foldl (exec Z) h cs"

section \<open>A schema library for the examples\<close>

text \<open>
  Modelled from the spec: the schema-validation component (\<open>z.object\<close>, \<open>parse\<close>,
  \<open>extend\<close>), an external library that is not under src/. A schema is a list of named field
  constraints; \<open>validate\<close> fails with one issue for each field whose constraint the value
  does not meet and otherwise returns the parsed value, which holds the declared fields
  only; \<open>merge\<close> is the field-level union in which the fields of the second schema take
  precedence on a name collision. The library's \<open>extend\<close> merges a plain object of field
  constraints into a schema; given anything else, such as a schema object, it throws
  \<open>Error("Invalid input to extend: expected a plain object")\<close>. A schema object is
  identified with its list of field constraints, and the argument of \<open>extend\<close> records
  which of the two the caller passed.
\<close>

datatype jsval = JString string | JNumber int

type_synonym ctx_value = "(string \<times> jsval) list"

datatype ztype = ZString | ZNumber

type_synonym zshape = "(string \<times> ztype) list"

datatype issue = Issue string ztype

fun conforms :: "ztype \<Rightarrow> jsval option \<Rightarrow> bool" where
  "conforms ZString (Some (JString s)) = True"
| "conforms ZNumber (Some (JNumber n)) = True"
| "conforms t v = False"

definition check_field :: "ctx_value \<Rightarrow> string \<times> ztype \<Rightarrow> issue list" where
  "check_field ctx kt = (if conforms (snd kt) (map_of ctx (fst kt)) then [] else [Issue (fst kt) (snd kt)])"

definition pick_field :: "ctx_value \<Rightarrow> string \<times> ztype \<Rightarrow> ctx_value" where
  "pick_field ctx kt = (case map_of ctx (fst kt) of Some v \<Rightarrow> [(fst kt, v)] | None \<Rightarrow> [])"

definition zod_parse :: "zshape \<Rightarrow> ctx_value \<Rightarrow> issue list + ctx_value" where
  "zod_parse shape ctx =
     (case concat (map (check_field ctx) shape) of
        [] \<Rightarrow> Inr (concat (map (pick_field ctx) shape))
      | i # is \<Rightarrow> Inl (i # is))"

definition merge_shape :: "zshape \<Rightarrow> zshape \<Rightarrow> zshape" where
  "merge_shape A B = fold (\<lambda>kt acc. AList.update (fst kt) (snd kt) acc) B A"

datatype extend_arg = PlainObject zshape | SchemaObject zshape

fun zod_extend :: "zshape \<Rightarrow> extend_arg \<Rightarrow> issue list error + zshape" where
  "zod_extend A (PlainObject B) = Inr (merge_shape A B)"
| "zod_extend A (SchemaObject S) = Inl (Error ''Invalid input to extend: expected a plain object'')"

text \<open>
  \<open>withContext\<close> passes its parameter \<open>schema\<close>, a schema object, to \<open>extend\<close> as it is.
\<close>

definition zod :: "(zshape, ctx_value, issue list) schema_lib" where
  "zod = \<lparr>schema_parse = zod_parse,
           schema_extend = (\<lambda>cs schema. zod_extend cs (SchemaObject schema))\<rparr>"

text \<open>A tool object for the examples: its name and the context its \<open>execute\<close> closes over.\<close>

record example_tool =
  name :: string
  closure :: ctx_value

definition example_source :: "ctx_value \<Rightarrow> example_tool" where
  "example_source ctx = \<lparr>name = ''t'', closure = ctx\<rparr>"

definition greet :: example_tool where
  "greet = \<lparr>name = ''greet'', closure = []\<rparr>"

section \<open>Closed forms of the allocating methods\<close>

lemma get_contextSchema_snoc:
  "get_contextSchema (h @ [Builder \<lparr>toolConfig = Null, contextSchema = Undefined\<rparr>]) a
     = get_contextSchema h a"
  by (simp add: get_contextSchema_def nth_append)

text \<open>
  \<open>withContext\<close> appends one builder to the store and touches nothing else, whether it
  returns or throws.
\<close>

lemma withContext_eq:
  "withContext Z h b s =
     (case get_contextSchema h b of
        Value cs \<Rightarrow>
          (case schema_extend Z cs s of
             Inl e \<Rightarrow>
               (Inl e, h @ [Builder \<lparr>toolConfig = Null, contextSchema = Undefined\<rparr>])
           | Inr extended \<Rightarrow>
               (Inr (length h),
                h @ [Builder \<lparr>toolConfig = Null, contextSchema = Value extended\<rparr>]))
      | Undefined \<Rightarrow>
          (Inr (length h), h @ [Builder \<lparr>toolConfig = Null, contextSchema = Value s\<rparr>])
      | Null \<Rightarrow>
          (Inr (length h), h @ [Builder \<lparr>toolConfig = Null, contextSchema = Value s\<rparr>]))"
  by (simp add: withContext_def new_ToolBuilder_def get_contextSchema_snoc set_contextSchema_def
           split: js_slot.splits sum.splits)

lemma withContext_length: "length (snd (withContext Z h b s)) = Suc (length h)"
  by (simp add: withContext_eq split: js_slot.splits sum.splits)

lemma withContext_frame:
  "a < length h \<Longrightarrow> snd (withContext Z h b s) ! a = h ! a"
  by (simp add: withContext_eq nth_append split: js_slot.splits sum.splits)

lemma withContext_allocated:
  "get_toolConfig (snd (withContext Z h b s)) (length h) = Null"
  by (simp add: withContext_eq get_toolConfig_def split: js_slot.splits sum.splits)

lemma withContext_returns:
  "withContext Z h b s = (Inr nb, h') \<Longrightarrow>
   nb = length h \<and> length h' = Suc (length h) \<and> is_builder h' nb \<and>
   get_toolConfig h' nb = Null"
  by (auto simp: withContext_eq is_builder_def get_toolConfig_def
           split: js_slot.splits sum.splits)

lemma withContext_adopts:
  "get_contextSchema h b = Undefined \<Longrightarrow>
   withContext Z h b s
     = (Inr (length h), h @ [Builder \<lparr>toolConfig = Null, contextSchema = Value s\<rparr>])"
  by (simp add: withContext_eq)

lemma withContext_extends:
  "get_contextSchema h b = Value cs \<Longrightarrow> schema_extend Z cs s = Inr extended \<Longrightarrow>
   withContext Z h b s
     = (Inr (length h), h @ [Builder \<lparr>toolConfig = Null, contextSchema = Value extended\<rparr>])"
  by (simp add: withContext_eq)

lemma withContext_throws:
  "get_contextSchema h b = Value cs \<Longrightarrow> schema_extend Z cs s = Inl e \<Longrightarrow>
   fst (withContext Z h b s) = Inl e"
  by (simp add: withContext_eq)

lemma get_build_builder: "is_builder h a \<Longrightarrow> get_build h a = Value ToolBuilder_build"
  by (auto simp: is_builder_def get_build_def split: js_object.splits)

lemma is_builder_snoc: "is_builder h a \<Longrightarrow> is_builder (h @ xs) a"
  by (simp add: is_builder_def nth_append)

text \<open>\<open>tool\<close> appends the configured builder and the handle; the handle holds only \<open>build\<close>.\<close>

lemma tool_eq:
  "is_builder h b \<Longrightarrow>
   tool h b config =
     (Suc (length h),
      h @ [Builder \<lparr>toolConfig = Value config, contextSchema = Undefined\<rparr>,
           Handle (Value ToolBuilder_build)])"
  by (simp add: tool_def new_ToolBuilder_def set_toolConfig_def get_build_builder is_builder_snoc)

lemma build_heap: "snd (build Z h a ctx) = h"
  by (simp add: build_def split: js_slot.splits tool_config.splits sum.splits)

lemma call_build_heap: "snd (call_build Z h a ctx) = h"
  by (simp add: call_build_def build_heap split: js_slot.splits js_function.splits)

lemma withContexts_builder:
  "is_builder h b \<Longrightarrow> withContexts Z h b ss = (Inr b', h') \<Longrightarrow> is_builder h' b'"
proof (induction ss arbitrary: h b)
  case Nil
  then show ?case by simp
next
  case (Cons s ss)
  obtain r h1 where w: "withContext Z h b s = (r, h1)"
    by (cases "withContext Z h b s")
  show ?case
  proof (cases r)
    case (Inl e)
    with Cons.prems w show ?thesis by simp
  next
    case (Inr b1)
    have "is_builder h1 b1"
      using withContext_returns [OF w [unfolded Inr]] by blast
    moreover have "withContexts Z h1 b1 ss = (Inr b', h')"
      using Cons.prems w Inr by simp
    ultimately show ?thesis by (rule Cons.IH)
  qed
qed

lemma handle_build:
  "call_build Z (h @ [Handle (Value ToolBuilder_build)]) (length h) ctx =
     (Inl (Error ''Tool not configured''), h @ [Handle (Value ToolBuilder_build)])"
  by (simp add: call_build_def get_build_def build_def get_toolConfig_def)

text \<open>\<open>b.tool(config).build(ctx)\<close> on any builder \<open>b\<close>.\<close>

lemma tool_then_build:
  "is_builder h b \<Longrightarrow> tool h b config = (handle, h2) \<Longrightarrow>
   call_build Z h2 handle ctx = (Inl (Error ''Tool not configured''), h2)"
  using handle_build [of Z "h @ [Builder \<lparr>toolConfig = Value config, contextSchema = Undefined\<rparr>]" ctx]
  by (auto simp: tool_eq)

lemma module_heap_builder:
  "is_builder (module_heap :: ('s, 'c, 't) heap) toolBuilder"
  by (simp add: is_builder_def module_heap_def toolBuilder_def new_ToolBuilder_def)

section \<open>The method build on an object that holds a tool source\<close>

lemma build_static:
  "get_toolConfig h a = Value (Static d) \<Longrightarrow> build Z h a ctx = (Inr d, h)"
  by (simp add: build_def)

lemma build_function_no_schema:
  "get_toolConfig h a = Value (Deferred f) \<Longrightarrow> get_contextSchema h a = Undefined \<Longrightarrow>
   build Z h a ctx = (Inr (f ctx), h)"
  by (simp add: build_def)

lemma build_function_invalid:
  "get_toolConfig h a = Value (Deferred f) \<Longrightarrow> get_contextSchema h a = Value S \<Longrightarrow>
   schema_parse Z S ctx = Inl e \<Longrightarrow> build Z h a ctx = (Inl (ZodError e), h)"
  by (simp add: build_def)

lemma build_function_valid:
  "get_toolConfig h a = Value (Deferred f) \<Longrightarrow> get_contextSchema h a = Value S \<Longrightarrow>
   schema_parse Z S ctx = Inr p \<Longrightarrow> build Z h a ctx = (Inr (f ctx), h)"
  by (simp add: build_def)

lemma build_unconfigured:
  "get_toolConfig h a = Null \<Longrightarrow> build Z h a ctx = (Inl (Error ''Tool not configured''), h)"
  by (simp add: build_def)

section \<open>Frame properties of the store\<close>

lemma tool_frame:
  "is_builder h b \<Longrightarrow> a < length h \<Longrightarrow> snd (tool h b config) ! a = h ! a"
  by (simp add: tool_eq nth_append)

lemma exec_frame:
  "a < length h \<Longrightarrow> exec Z h c ! a = h ! a"
  by (cases c) (simp_all add: withContext_frame tool_frame call_build_heap)

lemma exec_length: "length h \<le> length (exec Z h c)"
  by (cases c) (simp_all add: withContext_length tool_eq call_build_heap)

lemma exec_all_frame:
  "a < length h \<Longrightarrow> exec_all Z h cs ! a = h ! a"
proof (induction cs arbitrary: h)
  case Nil
  then show ?case by (simp add: exec_all_def)
next
  case (Cons c cs)
  have "a < length (exec Z h c)"
    using Cons.prems exec_length [of h Z c] by simp
  from Cons.IH [OF this] show ?case
    using Cons.prems by (simp add: exec_all_def exec_frame)
qed

lemma exec_all_length: "length h \<le> length (exec_all Z h cs)"
proof (induction cs arbitrary: h)
  case Nil
  then show ?case by (simp add: exec_all_def)
next
  case (Cons c cs)
  have "length h \<le> length (exec Z h c)" by (rule exec_length)
  also have "\<dots> \<le> length (exec_all Z (exec Z h c) cs)" by (rule Cons.IH)
  finally show ?case by (simp add: exec_all_def)
qed

lemma same_object_same_fields:
  "a < length h \<Longrightarrow> a < length h' \<Longrightarrow> h' ! a = h ! a \<Longrightarrow>
   get_toolConfig h' a = get_toolConfig h a \<and> get_contextSchema h' a = get_contextSchema h a"
  by (simp add: get_toolConfig_def get_contextSchema_def)

lemma exec_all_fields:
  "a < length h \<Longrightarrow>
   get_toolConfig (exec_all Z h cs) a = get_toolConfig h a \<and>
   get_contextSchema (exec_all Z h cs) a = get_contextSchema h a"
proof -
  assume a: "a < length h"
  have "a < length (exec_all Z h cs)"
    using a exec_all_length [of h Z cs] by simp
  from same_object_same_fields [OF a this exec_all_frame [OF a]] show ?thesis .
qed

lemma exec_builds_only: "exec_all Z h (map (Build obj) ctxs) = h"
  by (induction ctxs) (simp_all add: exec_all_def call_build_heap)

section \<open>Builders made by withContext\<close>

lemma withContexts_toolConfig:
  "get_toolConfig h b = Null \<Longrightarrow> withContexts Z h b ss = (Inr b', h') \<Longrightarrow>
   get_toolConfig h' b' = Null"
proof (induction ss arbitrary: h b)
  case Nil
  then show ?case by simp
next
  case (Cons s ss)
  obtain r h1 where w: "withContext Z h b s = (r, h1)"
    by (cases "withContext Z h b s")
  show ?case
  proof (cases r)
    case (Inl e)
    with Cons.prems w show ?thesis by simp
  next
    case (Inr b1)
    have "get_toolConfig h1 b1 = Null"
      using withContext_returns [OF w [unfolded Inr]] by blast
    moreover have "withContexts Z h1 b1 ss = (Inr b', h')"
      using Cons.prems w Inr by simp
    ultimately show ?thesis by (rule Cons.IH)
  qed
qed

lemma module_toolConfig:
  "get_toolConfig (module_heap :: ('s, 'c, 't) heap) toolBuilder = Null"
  by (simp add: get_toolConfig_def module_heap_def toolBuilder_def new_ToolBuilder_def)

text \<open>Without a call of \<open>tool\<close>, \<open>build\<close> on the builder of the chain is not configured.\<close>

lemma build_without_tool:
  "get_toolConfig h b = Null \<Longrightarrow> withContexts Z h b ss = (Inr b', h') \<Longrightarrow>
   build Z h' b' ctx = (Inl (Error ''Tool not configured''), h')"
  by (simp add: build_unconfigured withContexts_toolConfig)

section \<open>The example schema library\<close>

lemma map_of_merge_shape:
  "distinct (map fst B) \<Longrightarrow> map_of (merge_shape A B) = map_of A ++ map_of B"
proof (induction B arbitrary: A)
  case Nil
  then show ?case by (simp add: merge_shape_def)
next
  case (Cons kt B)
  have d: "distinct (map fst B)" and n: "fst kt \<notin> fst ` set B"
    using Cons.prems by simp_all
  have "map_of (merge_shape (AList.update (fst kt) (snd kt) A) B)
          = map_of (AList.update (fst kt) (snd kt) A) ++ map_of B"
    by (rule Cons.IH [OF d])
  moreover have "map_of B (fst kt) = None"
    using n by (simp add: map_of_eq_None_iff)
  ultimately show ?case
    by (cases kt) (auto simp: merge_shape_def update_conv' map_add_def fun_eq_iff
                        split: option.splits)
qed

lemma zod_parse_accepts:
  "(\<exists>p. zod_parse S ctx = Inr p) = list_all (\<lambda>kt. conforms (snd kt) (map_of ctx (fst kt))) S"
proof -
  have "(concat (map (check_field ctx) S) = [])
          = list_all (\<lambda>kt. conforms (snd kt) (map_of ctx (fst kt))) S"
    by (induction S) (simp_all add: check_field_def)
  then have e: "list_all (\<lambda>kt. conforms (snd kt) (map_of ctx (fst kt))) S
                  = (concat (map (check_field ctx) S) = [])"
    by (rule sym)
  show ?thesis
    unfolding e
  proof (cases "concat (map (check_field ctx) S)")
    case Nil
    have "zod_parse S ctx = Inr (concat (map (pick_field ctx) S))"
      unfolding zod_parse_def Nil by simp
    then show "(\<exists>p. zod_parse S ctx = Inr p) = (concat (map (check_field ctx) S) = [])"
      using Nil by blast
  next
    case (Cons i rest)
    have "zod_parse S ctx = Inl (i # rest)"
      unfolding zod_parse_def Cons by simp
    then show "(\<exists>p. zod_parse S ctx = Inr p) = (concat (map (check_field ctx) S) = [])"
      unfolding Cons by simp
  qed
qed

text \<open>The library's \<open>extend\<close> never returns when \<open>withContext\<close> calls it.\<close>

lemma zod_extend_throws:
  "schema_extend zod cs s = Inl (Error ''Invalid input to extend: expected a plain object'')"
  by (simp add: zod_def)

text \<open>The definitions that evaluating a concrete chain unfolds.\<close>

lemmas eval_defs =
  zod_def zod_parse_def merge_shape_def check_field_def pick_field_def example_source_def greet_def
  module_heap_def toolBuilder_def new_ToolBuilder_def
  get_toolConfig_def get_contextSchema_def get_build_def set_toolConfig_def set_contextSchema_def
  withContext_def tool_def build_def call_build_def run_chain_def

section \<open>Claims\<close>

text \<open>
  C1, evaluated. The schema \<open>{apiKey: string}\<close> accepts the context value
  \<open>{apiKey: "k"}\<close>, but \<open>toolBuilder.withContext({apiKey: string}).tool(f).build({apiKey: "k"})\<close>
  raises \<open>Error("Tool not configured")\<close> and so does not return \<open>f\<close> applied to the
  validated context value.
\<close>

theorem schema_function_chain_raises:
  "schema_parse zod [(''apiKey'', ZString)] [(''apiKey'', JString ''k'')]
     = Inr [(''apiKey'', JString ''k'')] \<and>
   fst (run_chain zod (module_heap :: (zshape, ctx_value, example_tool) heap) toolBuilder
          [[(''apiKey'', ZString)]] (Deferred example_source) [(''apiKey'', JString ''k'')])
     = Inl (Error ''Tool not configured'') \<and>
   fst (run_chain zod (module_heap :: (zshape, ctx_value, example_tool) heap) toolBuilder
          [[(''apiKey'', ZString)]] (Deferred example_source) [(''apiKey'', JString ''k'')])
     \<noteq> Inr (example_source [(''apiKey'', JString ''k'')])"
  by (simp add: eval_defs)

text \<open>
  C2. Take any chain \<open>b.withContext(s1). ... .withContext(sn).tool(config)\<close> that starts at
  a builder object. If the \<open>withContext\<close> calls return, then \<open>build\<close> called on the handle
  that \<open>tool\<close> returned raises \<open>Error("Tool not configured")\<close>, for every configuration
  and every context value: the handle has no \<open>toolConfig\<close>. If a \<open>withContext\<close> call throws,
  the chain ends there. Either way the chain produces no tool object.
\<close>

theorem handle_build_not_configured:
  assumes "is_builder h b"
  shows "(withContexts Z h b ss = (Inr b', h1) \<longrightarrow> tool h1 b' config = (handle, h2) \<longrightarrow>
            call_build Z h2 handle ctx = (Inl (Error ''Tool not configured''), h2)) \<and>
         (fst (withContexts Z h b ss) = Inr b' \<longrightarrow>
            fst (run_chain Z h b ss config ctx) = Inl (Error ''Tool not configured'')) \<and>
         fst (run_chain Z h b ss config ctx) \<noteq> Inr t"
proof -
  have p1: "withContexts Z h b ss = (Inr b', h1) \<longrightarrow> tool h1 b' config = (handle, h2) \<longrightarrow>
              call_build Z h2 handle ctx = (Inl (Error ''Tool not configured''), h2)"
  proof (intro impI)
    assume w: "withContexts Z h b ss = (Inr b', h1)" and t: "tool h1 b' config = (handle, h2)"
    show "call_build Z h2 handle ctx = (Inl (Error ''Tool not configured''), h2)"
      using withContexts_builder [OF assms w] t by (rule tool_then_build)
  qed
  have p2: "fst (run_chain Z h b ss config ctx) = Inl (Error ''Tool not configured'')"
    if w: "withContexts Z h b ss = (Inr x, hx)" for x hx
  proof -
    obtain hd hy where t: "tool hx x config = (hd, hy)"
      by (cases "tool hx x config")
    have "call_build Z hy hd ctx = (Inl (Error ''Tool not configured''), hy)"
      using withContexts_builder [OF assms w] t by (rule tool_then_build)
    then show ?thesis by (simp add: run_chain_def w t)
  qed
  obtain r hw where w: "withContexts Z h b ss = (r, hw)"
    by (cases "withContexts Z h b ss")
  have p3: "fst (withContexts Z h b ss) = Inr b' \<longrightarrow>
              fst (run_chain Z h b ss config ctx) = Inl (Error ''Tool not configured'')"
    using p2 [of b' hw] w by simp
  have p4: "fst (run_chain Z h b ss config ctx) \<noteq> Inr t"
  proof (cases r)
    case (Inl e)
    then show ?thesis by (simp add: run_chain_def w)
  next
    case (Inr x)
    then show ?thesis using p2 [of x hw] w by simp
  qed
  from p1 p3 p4 show ?thesis by blast
qed

theorem handle_build_not_configured_witness:
  "is_builder (module_heap :: (zshape, ctx_value, example_tool) heap) toolBuilder \<and>
   withContexts zod (module_heap :: (zshape, ctx_value, example_tool) heap) toolBuilder
       [[(''userId'', ZString)]]
     = (Inr 1, [Builder \<lparr>toolConfig = Null, contextSchema = Undefined\<rparr>,
                Builder \<lparr>toolConfig = Null, contextSchema = Value [(''userId'', ZString)]\<rparr>]) \<and>
   tool ([Builder \<lparr>toolConfig = Null, contextSchema = Undefined\<rparr>,
          Builder \<lparr>toolConfig = Null, contextSchema = Value [(''userId'', ZString)]\<rparr>]
         :: (zshape, ctx_value, example_tool) heap) 1 (Static greet)
     = (3, [Builder \<lparr>toolConfig = Null, contextSchema = Undefined\<rparr>,
            Builder \<lparr>toolConfig = Null, contextSchema = Value [(''userId'', ZString)]\<rparr>,
            Builder \<lparr>toolConfig = Value (Static greet), contextSchema = Undefined\<rparr>,
            Handle (Value ToolBuilder_build)]) \<and>
   call_build zod
       [Builder \<lparr>toolConfig = Null, contextSchema = Undefined\<rparr>,
        Builder \<lparr>toolConfig = Null, contextSchema = Value [(''userId'', ZString)]\<rparr>,
        Builder \<lparr>toolConfig = Value (Static greet), contextSchema = Undefined\<rparr>,
        Handle (Value ToolBuilder_build)] 3 [(''userId'', JString ''123'')]
     = (Inl (Error ''Tool not configured''),
        [Builder \<lparr>toolConfig = Null, contextSchema = Undefined\<rparr>,
         Builder \<lparr>toolConfig = Null, contextSchema = Value [(''userId'', ZString)]\<rparr>,
         Builder \<lparr>toolConfig = Value (Static greet), contextSchema = Undefined\<rparr>,
         Handle (Value ToolBuilder_build)]) \<and>
   fst (run_chain zod (module_heap :: (zshape, ctx_value, example_tool) heap) toolBuilder
          [[(''userId'', ZString)]] (Static greet) [(''userId'', JString ''123'')])
     = Inl (Error ''Tool not configured'')"
proof -
  let ?h1 = "[Builder \<lparr>toolConfig = Null, contextSchema = Undefined\<rparr>,
              Builder \<lparr>toolConfig = Null, contextSchema = Value [(''userId'', ZString)]\<rparr>]
             :: (zshape, ctx_value, example_tool) heap"
  let ?h2 = "[Builder \<lparr>toolConfig = Null, contextSchema = Undefined\<rparr>,
              Builder \<lparr>toolConfig = Null, contextSchema = Value [(''userId'', ZString)]\<rparr>,
              Builder \<lparr>toolConfig = Value (Static greet), contextSchema = Undefined\<rparr>,
              Handle (Value ToolBuilder_build)]
             :: (zshape, ctx_value, example_tool) heap"
  have b: "is_builder (module_heap :: (zshape, ctx_value, example_tool) heap) toolBuilder"
    by (simp add: is_builder_def module_heap_def toolBuilder_def new_ToolBuilder_def)
  have w: "withContexts zod (module_heap :: (zshape, ctx_value, example_tool) heap) toolBuilder
             [[(''userId'', ZString)]] = (Inr 1, ?h1)"
    by (simp add: eval_defs)
  have t: "tool ?h1 1 (Static greet) = (3, ?h2)"
    by (simp add: eval_defs)
  have f: "fst (withContexts zod (module_heap :: (zshape, ctx_value, example_tool) heap) toolBuilder
             [[(''userId'', ZString)]]) = Inr 1"
    by (simp only: w fst_conv)
  note T = handle_build_not_configured [OF b,
      where Z = zod and ss = "[[(''userId'', ZString)]]" and b' = 1 and ?h1.0 = ?h1
        and config = "Static greet" and handle = 3 and ?h2.0 = ?h2
        and ctx = "[(''userId'', JString ''123'')]" and t = greet]
  from T w t have c1: "call_build zod ?h2 3 [(''userId'', JString ''123'')]
                         = (Inl (Error ''Tool not configured''), ?h2)"
    by blast
  from T f have c2:
    "fst (run_chain zod (module_heap :: (zshape, ctx_value, example_tool) heap) toolBuilder
            [[(''userId'', ZString)]] (Static greet) [(''userId'', JString ''123'')])
       = Inl (Error ''Tool not configured'')"
    by blast
  from b w t c1 c2 show ?thesis by blast
qed

text \<open>
  C3, evaluated. The chain \<open>toolBuilder.tool(d).build({})\<close> with a concrete tool object
  \<open>d\<close>: \<open>tool\<close> stores \<open>d\<close> in a builder (address 1) that the returned handle
  (address 2) does not refer to, and \<open>build\<close> on the handle raises
  \<open>Error("Tool not configured")\<close> instead of returning \<open>d\<close>.
\<close>

theorem static_source_chain_raises:
  "tool (module_heap :: (zshape, ctx_value, example_tool) heap) toolBuilder (Static greet)
     = (2, [Builder \<lparr>toolConfig = Null, contextSchema = Undefined\<rparr>,
            Builder \<lparr>toolConfig = Value (Static greet), contextSchema = Undefined\<rparr>,
            Handle (Value ToolBuilder_build)]) \<and>
   fst (run_chain zod (module_heap :: (zshape, ctx_value, example_tool) heap) toolBuilder
          [] (Static greet) [])
     = Inl (Error ''Tool not configured'')"
  by (simp add: eval_defs)

text \<open>
  C4, evaluated. The chain \<open>toolBuilder.withContext({apiKey: string}).tool(f).build({apiKey: "k"})\<close>
  binds a tool source with \<open>tool\<close>, and \<open>build\<close> still raises
  \<open>Error("Tool not configured")\<close>.
\<close>

theorem bound_source_chain_raises_configuration_error:
  "fst (run_chain zod (module_heap :: (zshape, ctx_value, example_tool) heap) toolBuilder
          [[(''apiKey'', ZString)]] (Deferred example_source) [(''apiKey'', JString ''k'')])
     = Inl (Error ''Tool not configured'')"
  by (simp add: eval_defs)

text \<open>
  C5, evaluated. The schema \<open>{apiKey: string}\<close> rejects the context value \<open>{}\<close> with an
  issue for \<open>apiKey\<close>, but \<open>toolBuilder.withContext({apiKey: string}).tool(f).build({})\<close>
  raises \<open>Error("Tool not configured")\<close>, not the validation error.
\<close>

theorem invalid_context_chain_raises_configuration_error:
  "schema_parse zod [(''apiKey'', ZString)] [] = Inl [Issue ''apiKey'' ZString] \<and>
   fst (run_chain zod (module_heap :: (zshape, ctx_value, example_tool) heap) toolBuilder
          [[(''apiKey'', ZString)]] (Deferred example_source) [])
     = Inl (Error ''Tool not configured'')"
  by (simp add: eval_defs)

text \<open>
  C6, evaluated. \<open>toolBuilder.withContext({a: string})\<close> adopts the fragment as the schema
  of the new builder. The second call, \<open>.withContext({a: number})\<close>, hands the schema object
  to the library's \<open>extend\<close>, which throws
  \<open>Error("Invalid input to extend: expected a plain object")\<close>: no builder with a merged
  schema is made, and the chain \<open>.tool(f).build({a: 5})\<close> ends with that error instead of
  returning \<open>f({a: 5})\<close>.
\<close>

theorem second_withContext_raises:
  "withContexts zod (module_heap :: (zshape, ctx_value, example_tool) heap) toolBuilder
       [[(''a'', ZString)]]
     = (Inr 1, [Builder \<lparr>toolConfig = Null, contextSchema = Undefined\<rparr>,
                Builder \<lparr>toolConfig = Null, contextSchema = Value [(''a'', ZString)]\<rparr>]) \<and>
   fst (withContexts zod (module_heap :: (zshape, ctx_value, example_tool) heap) toolBuilder
          [[(''a'', ZString)], [(''a'', ZNumber)]])
     = Inl (Error ''Invalid input to extend: expected a plain object'') \<and>
   fst (run_chain zod (module_heap :: (zshape, ctx_value, example_tool) heap) toolBuilder
          [[(''a'', ZString)], [(''a'', ZNumber)]] (Deferred example_source) [(''a'', JNumber 5)])
     = Inl (Error ''Invalid input to extend: expected a plain object'')"
  by (simp add: eval_defs)

text \<open>
  C7, evaluated. With no context schema declared, \<open>toolBuilder.tool(f).build({})\<close> raises
  \<open>Error("Tool not configured")\<close> instead of returning \<open>f({})\<close>.
\<close>

theorem function_source_no_schema_chain_raises:
  "fst (run_chain zod (module_heap :: (zshape, ctx_value, example_tool) heap) toolBuilder
          [] (Deferred example_source) [])
     = Inl (Error ''Tool not configured'')"
  by (simp add: eval_defs)

text \<open>
  C8. \<open>withContext\<close> does not change its receiver. Whether the call returns or throws,
  every object that existed before it is the same after it. Two calls of \<open>withContext\<close> on
  the same builder \<open>b\<close> that return give two new objects, different from \<open>b\<close> and from each
  other; \<open>b\<close> and the first new builder are unchanged by the second call; the second builder
  is the object that \<open>withContext\<close> would have made had the first never been derived; and no
  later sequence of method calls, on whatever objects, changes the tool source or the schema
  of an object that exists already.
\<close>

theorem withContext_leaves_receiver_unchanged:
  assumes b: "is_builder h b"
    and w1: "withContext Z h b s1 = (Inr b1, h1)"
    and w2: "withContext Z h1 b s2 = (Inr b2, h2)"
  shows "b1 \<noteq> b \<and> b2 \<noteq> b \<and> b1 \<noteq> b2 \<and> is_builder h1 b1 \<and> is_builder h2 b2 \<and>
         (a < length h \<longrightarrow> h1 ! a = h ! a) \<and>
         (a < length h1 \<longrightarrow> h2 ! a = h1 ! a) \<and>
         (a < length h \<longrightarrow> snd (withContext Z h b' s') ! a = h ! a) \<and>
         get_toolConfig h2 b = get_toolConfig h b \<and>
         get_contextSchema h2 b = get_contextSchema h b \<and>
         get_contextSchema h2 b1 = get_contextSchema h1 b1 \<and>
         withContext Z h b s2 = (Inr (length h), h @ [h2 ! b2]) \<and>
         get_contextSchema h2 b2 = get_contextSchema (snd (withContext Z h b s2)) (length h) \<and>
         (a < length h2 \<longrightarrow>
            get_toolConfig (exec_all Z h2 cs) a = get_toolConfig h2 a \<and>
            get_contextSchema (exec_all Z h2 cs) a = get_contextSchema h2 a)"
proof -
  have lt: "b < length h"
    using b by (simp add: is_builder_def)
  have e1: "b1 = length h" "length h1 = Suc (length h)" and m1: "is_builder h1 b1"
    using withContext_returns [OF w1] by blast+
  have e2: "b2 = length h1" "length h2 = Suc (length h1)" and m2: "is_builder h2 b2"
    using withContext_returns [OF w2] by blast+
  have s1: "h1 = snd (withContext Z h b s1)"
    by (simp add: w1)
  have s2: "h2 = snd (withContext Z h1 b s2)"
    by (simp add: w2)
  have fresh: "b1 \<noteq> b \<and> b2 \<noteq> b \<and> b1 \<noteq> b2"
    using lt e1 e2 by simp
  have f1: "a < length h \<longrightarrow> h1 ! a = h ! a" for a
    unfolding s1 by (simp add: withContext_frame)
  have f2: "a < length h1 \<longrightarrow> h2 ! a = h1 ! a" for a
    unfolding s2 by (simp add: withContext_frame)
  have f3: "a < length h \<longrightarrow> snd (withContext Z h b' s') ! a = h ! a"
    by (simp add: withContext_frame)
  have b_h1: "h1 ! b = h ! b" and b_h2: "h2 ! b = h ! b"
    using f1 [of b] f2 [of b] lt e1 by simp_all
  have sb1: "get_contextSchema h1 b = get_contextSchema h b"
    using lt e1 b_h1 by (simp add: get_contextSchema_def)
  have rb: "get_toolConfig h2 b = get_toolConfig h b \<and>
            get_contextSchema h2 b = get_contextSchema h b"
    using lt e1 e2 b_h2 by (simp add: get_toolConfig_def get_contextSchema_def)
  have "h2 ! b1 = h1 ! b1"
    using f2 [of b1] e1 by simp
  then have r1: "get_contextSchema h2 b1 = get_contextSchema h1 b1"
    using e1 e2 by (simp add: get_contextSchema_def)
  have r2: "withContext Z h b s2 = (Inr (length h), h @ [h2 ! b2])"
    using w2 sb1
    by (auto simp: withContext_eq [of Z h1] withContext_eq [of Z h]
             split: js_slot.splits sum.splits)
  have r3: "get_contextSchema h2 b2 = get_contextSchema (snd (withContext Z h b s2)) (length h)"
    using e2 by (simp add: r2 get_contextSchema_def)
  have later: "a < length h2 \<longrightarrow>
                 get_toolConfig (exec_all Z h2 cs) a = get_toolConfig h2 a \<and>
                 get_contextSchema (exec_all Z h2 cs) a = get_contextSchema h2 a"
    using exec_all_fields [of a h2 Z cs] by blast
  from fresh m1 m2 f1 [of a] f2 [of a] f3 rb r1 r2 r3 later show ?thesis by blast
qed

theorem withContext_leaves_receiver_unchanged_witness:
  "is_builder (module_heap :: (zshape, ctx_value, example_tool) heap) toolBuilder \<and>
   withContext zod (module_heap :: (zshape, ctx_value, example_tool) heap) toolBuilder
       [(''userId'', ZString)]
     = (Inr 1, [Builder \<lparr>toolConfig = Null, contextSchema = Undefined\<rparr>,
                Builder \<lparr>toolConfig = Null, contextSchema = Value [(''userId'', ZString)]\<rparr>]) \<and>
   withContext zod
       ([Builder \<lparr>toolConfig = Null, contextSchema = Undefined\<rparr>,
         Builder \<lparr>toolConfig = Null, contextSchema = Value [(''userId'', ZString)]\<rparr>]
        :: (zshape, ctx_value, example_tool) heap)
       toolBuilder [(''sessionId'', ZString)]
     = (Inr 2, [Builder \<lparr>toolConfig = Null, contextSchema = Undefined\<rparr>,
                Builder \<lparr>toolConfig = Null, contextSchema = Value [(''userId'', ZString)]\<rparr>,
                Builder \<lparr>toolConfig = Null, contextSchema = Value [(''sessionId'', ZString)]\<rparr>]) \<and>
   get_contextSchema
       (exec_all zod
          [Builder \<lparr>toolConfig = Null, contextSchema = Undefined\<rparr>,
           Builder \<lparr>toolConfig = Null, contextSchema = Value [(''userId'', ZString)]\<rparr>,
           Builder \<lparr>toolConfig = Null, contextSchema = Value [(''sessionId'', ZString)]\<rparr>]
          [WithContext 1 [(''age'', ZNumber)], Tool 1 (Static greet), Build 1 []]) 2
     = Value [(''sessionId'', ZString)]"
proof -
  let ?h1 = "[Builder \<lparr>toolConfig = Null, contextSchema = Undefined\<rparr>,
              Builder \<lparr>toolConfig = Null, contextSchema = Value [(''userId'', ZString)]\<rparr>]
             :: (zshape, ctx_value, example_tool) heap"
  let ?h2 = "[Builder \<lparr>toolConfig = Null, contextSchema = Undefined\<rparr>,
              Builder \<lparr>toolConfig = Null, contextSchema = Value [(''userId'', ZString)]\<rparr>,
              Builder \<lparr>toolConfig = Null, contextSchema = Value [(''sessionId'', ZString)]\<rparr>]
             :: (zshape, ctx_value, example_tool) heap"
  have b: "is_builder (module_heap :: (zshape, ctx_value, example_tool) heap) toolBuilder"
    by (simp add: is_builder_def module_heap_def toolBuilder_def new_ToolBuilder_def)
  have w1: "withContext zod (module_heap :: (zshape, ctx_value, example_tool) heap) toolBuilder
              [(''userId'', ZString)] = (Inr 1, ?h1)"
    by (simp add: eval_defs)
  have w2: "withContext zod ?h1 toolBuilder [(''sessionId'', ZString)] = (Inr 2, ?h2)"
    by (simp add: eval_defs)
  have s: "get_contextSchema ?h2 2 = Value [(''sessionId'', ZString)]"
    by (simp add: get_contextSchema_def)
  have "2 < length ?h2 \<longrightarrow>
          get_toolConfig
            (exec_all zod ?h2 [WithContext 1 [(''age'', ZNumber)], Tool 1 (Static greet), Build 1 []]) 2
            = get_toolConfig ?h2 2 \<and>
          get_contextSchema
            (exec_all zod ?h2 [WithContext 1 [(''age'', ZNumber)], Tool 1 (Static greet), Build 1 []]) 2
            = get_contextSchema ?h2 2"
    using withContext_leaves_receiver_unchanged [OF b w1 w2,
        where a = 2 and cs = "[WithContext 1 [(''age'', ZNumber)], Tool 1 (Static greet), Build 1 []]"]
    by blast
  then have "get_contextSchema
            (exec_all zod ?h2 [WithContext 1 [(''age'', ZNumber)], Tool 1 (Static greet), Build 1 []]) 2
            = get_contextSchema ?h2 2"
    by simp
  with s have c: "get_contextSchema
            (exec_all zod ?h2 [WithContext 1 [(''age'', ZNumber)], Tool 1 (Static greet), Build 1 []]) 2
            = Value [(''sessionId'', ZString)]"
    by (rule ssubst [where P = "\<lambda>x. x = Value [(''sessionId'', ZString)]", rotated])
  from b w1 w2 c show ?thesis by blast
qed

text \<open>
  C9. \<open>build\<close> changes no object: the store after \<open>build\<close>, called as a method of any
  object or run with any \<open>this\<close>, is the store before it. So a second \<open>build\<close> with another
  context value gives what it would have given as the first, and any number of \<open>build\<close> calls
  leave the store as it was.
\<close>

theorem build_leaves_store_unchanged:
  "snd (build Z h this ctx) = h \<and>
   snd (call_build Z h obj ctx) = h \<and>
   build Z (snd (build Z h this ctx)) this ctx' = build Z h this ctx' \<and>
   call_build Z (snd (call_build Z h obj ctx)) obj ctx' = call_build Z h obj ctx' \<and>
   exec_all Z h (map (Build obj) ctxs) = h"
  by (simp add: build_heap call_build_heap exec_builds_only)

text \<open>
  C10. The object that \<open>withContext\<close> allocates has \<open>toolConfig = null\<close>, whatever the
  receiver holds and whether or not the call returns; the builder it returns is that object;
  so every builder reached by \<open>withContext\<close> calls alone from a builder whose \<open>toolConfig\<close>
  is \<open>null\<close>, as the exported root's is, has \<open>toolConfig = null\<close>.
\<close>

theorem withContext_result_has_no_tool_source:
  assumes "get_toolConfig h b = Null"
  shows "get_toolConfig (snd (withContext Z h' b' s)) (length h') = Null \<and>
         (withContext Z h' b' s = (Inr nb, h'') \<longrightarrow>
            nb = length h' \<and> get_toolConfig h'' nb = Null) \<and>
         (withContexts Z h b ss = (Inr bn, hn) \<longrightarrow> get_toolConfig hn bn = Null)"
  using assms withContext_returns [of Z h' b' s nb h'']
  by (simp add: withContext_allocated withContexts_toolConfig)

theorem withContext_result_has_no_tool_source_witness:
  "get_toolConfig (module_heap :: (zshape, ctx_value, example_tool) heap) toolBuilder = Null \<and>
   withContext zod
       [Builder \<lparr>toolConfig = Value (Static greet), contextSchema = Undefined\<rparr>] 0
       [(''userId'', ZString)]
     = (Inr 1, [Builder \<lparr>toolConfig = Value (Static greet), contextSchema = Undefined\<rparr>,
                Builder \<lparr>toolConfig = Null, contextSchema = Value [(''userId'', ZString)]\<rparr>]) \<and>
   get_toolConfig
       [Builder \<lparr>toolConfig = Value (Static greet), contextSchema = Undefined\<rparr>,
        Builder \<lparr>toolConfig = Null, contextSchema = Value [(''userId'', ZString)]\<rparr>] 1
     = (Null :: (ctx_value, example_tool) tool_config js_slot) \<and>
   withContexts zod (module_heap :: (zshape, ctx_value, example_tool) heap) toolBuilder
       [[(''lastName'', ZString)]]
     = (Inr 1, [Builder \<lparr>toolConfig = Null, contextSchema = Undefined\<rparr>,
                Builder \<lparr>toolConfig = Null, contextSchema = Value [(''lastName'', ZString)]\<rparr>]) \<and>
   get_toolConfig
       ([Builder \<lparr>toolConfig = Null, contextSchema = Undefined\<rparr>,
         Builder \<lparr>toolConfig = Null, contextSchema = Value [(''lastName'', ZString)]\<rparr>]
        :: (zshape, ctx_value, example_tool) heap) 1
     = Null"
proof -
  let ?g = "[Builder \<lparr>toolConfig = Value (Static greet), contextSchema = Undefined\<rparr>]
            :: (zshape, ctx_value, example_tool) heap"
  let ?g1 = "[Builder \<lparr>toolConfig = Value (Static greet), contextSchema = Undefined\<rparr>,
              Builder \<lparr>toolConfig = Null, contextSchema = Value [(''userId'', ZString)]\<rparr>]
             :: (zshape, ctx_value, example_tool) heap"
  let ?h1 = "[Builder \<lparr>toolConfig = Null, contextSchema = Undefined\<rparr>,
              Builder \<lparr>toolConfig = Null, contextSchema = Value [(''lastName'', ZString)]\<rparr>]
             :: (zshape, ctx_value, example_tool) heap"
  have r: "get_toolConfig (module_heap :: (zshape, ctx_value, example_tool) heap) toolBuilder = Null"
    by (simp add: get_toolConfig_def module_heap_def toolBuilder_def new_ToolBuilder_def)
  have w: "withContext zod ?g 0 [(''userId'', ZString)] = (Inr 1, ?g1)"
    by (simp add: eval_defs)
  have ws: "withContexts zod (module_heap :: (zshape, ctx_value, example_tool) heap) toolBuilder
              [[(''lastName'', ZString)]] = (Inr 1, ?h1)"
    by (simp add: eval_defs)
  note T = withContext_result_has_no_tool_source [OF r,
      where Z = zod and h' = ?g and b' = 0 and s = "[(''userId'', ZString)]" and nb = 1
        and h'' = ?g1 and ss = "[[(''lastName'', ZString)]]" and bn = 1 and hn = ?h1]
  from T w have c1: "get_toolConfig ?g1 1 = Null" by blast
  from T ws have c2: "get_toolConfig ?h1 1 = Null" by blast
  from r w ws c1 c2 show ?thesis by blast
qed

end
